theory Spec2Isabelle
  imports Main
begin

section \<open>Python values and objects met by thriftproxy.py\<close>

text \<open>
  The exceptions the proxy's own code can raise, and \<open>Thrown\<close> for any exception that
  comes out of an external collaborator (a backend call, the Thrift transport).
\<close>

datatype exn =
    AssertionError
  | AttributeError
  | ImportError
  | IndexError
  | StopIteration
  | TypeError
  | ValueError
  | Thrown string

text \<open>
  The values found in a generated \<^verbatim>\<open>thrift_spec\<close>: a tuple whose entry 0 is \<^verbatim>\<open>None\<close> and
  whose entry \<open>k\<close> is \<^verbatim>\<open>(k, ttype, 'name', type_args, default)\<close> or \<^verbatim>\<open>None\<close>.
\<close>

datatype pyspec = SNone | SInt int | SStr string | STuple "pyspec list"

text \<open>The process-wide flags \<^verbatim>\<open>tracing\<close> and \<^verbatim>\<open>return_values\<close>, read by every delegate at call time.\<close>

record globals =
  tracing :: bool
  return_values :: bool

text \<open>
  What a call writes to \<^verbatim>\<open>sys.stdout\<close> and which backend method it invokes, in order.
\<close>

datatype 'v event =
    is_Wrote: Wrote string
  | Invoked "string option" "'v list" "(string \<times> 'v) list"

text \<open>
  The state a call runs in: the events so far, the \<^verbatim>\<open>softspace\<close> flag of \<^verbatim>\<open>sys.stdout\<close>
  that Python 2's \<^verbatim>\<open>print\<close> statement keeps, and the state of the backend.
\<close>

record ('v, 'b) world =
  events :: "'v event list"
  softspace :: bool
  backend :: 'b

text \<open>
  A bound method of the backend client: its \<^verbatim>\<open>__name__\<close> (absent on an attribute that is
  not a function), its \<^verbatim>\<open>__doc__\<close> (\<open>None\<close> is Python's \<^verbatim>\<open>None\<close>) and what calling it with
  positional and keyword arguments does to the backend.
\<close>

record ('v, 'b) pymethod =
  m_name :: "string option"
  m_doc :: "string option"
  m_call :: "'v list \<Rightarrow> (string \<times> 'v) list \<Rightarrow> 'b \<Rightarrow> (exn + 'v) \<times> 'b"

text \<open>
  A Python object as the attribute lookups of the source see it: \<^verbatim>\<open>__class__\<close>,
  \<^verbatim>\<open>__name__\<close>, \<^verbatim>\<open>__module__\<close> and \<^verbatim>\<open>__bases__\<close> (each absent or present), the
  names \<^verbatim>\<open>dir\<close> lists, and \<^verbatim>\<open>getattr\<close> on its other attributes.
\<close>

datatype ('v, 'b) pyobj = PyObj
  (ob_class: "('v, 'b) pyobj option")
  (ob_name: "string option")
  (ob_module: "string option")
  (ob_bases: "('v, 'b) pyobj list option")
  (ob_dir: "string list")
  (ob_getattr: "string \<Rightarrow> ('v, 'b) pymethod option")

section \<open>get_interface\<close>

text \<open>
  \<^verbatim>\<open>next(ifilter(lambda x: x.__name__ == 'Iface', bases))\<close>: the first base named
  \<^verbatim>\<open>Iface\<close>; reading \<^verbatim>\<open>__name__\<close> of a base that has none raises, and running out of
  bases raises \<^verbatim>\<open>StopIteration\<close>.
\<close>

fun next_ifilter_Iface :: "('v, 'b) pyobj list \<Rightarrow> exn + ('v, 'b) pyobj" where
  "next_ifilter_Iface [] = Inl StopIteration"
| "next_ifilter_Iface (x # xs) =
     (case ob_name x of
        None \<Rightarrow> Inl AttributeError
      | Some n \<Rightarrow> if n = ''Iface'' then Inr x else next_ifilter_Iface xs)"

text \<open>\<^verbatim>\<open>getattr(client, '__class__', client)\<close>\<close>

definition class_of :: "('v, 'b) pyobj \<Rightarrow> ('v, 'b) pyobj" where
  "class_of client = (case ob_class client of Some c \<Rightarrow> c | None \<Rightarrow> client)"

definition get_interface :: "('v, 'b) pyobj \<Rightarrow> exn + ('v, 'b) pyobj" where
  "get_interface client =
     (let class_obj = class_of client in
      if ob_class class_obj \<noteq> None then Inl AssertionError
      else case ob_name class_obj of
        None \<Rightarrow> Inl AttributeError
      | Some n \<Rightarrow>
          if n = ''Iface'' then Inr client
          else (case ob_bases class_obj of
                  None \<Rightarrow> Inl AttributeError
                | Some bases \<Rightarrow> next_ifilter_Iface bases))"

section \<open>get_service_methods\<close>

text \<open>
  \<^verbatim>\<open>MAGIC_METHOD_RE = re.compile(R'^__.+?__$')\<close> with \<^verbatim>\<open>match\<close>: two underscores, at
  least one character other than a newline, two underscores, and then the end of the
  string or one last newline (which \<^verbatim>\<open>$\<close> lets through).
\<close>

definition MAGIC_METHOD_RE_match :: "string \<Rightarrow> bool" where
  "MAGIC_METHOD_RE_match x =
     (let t = (if x \<noteq> [] \<and> last x = CHR 0x0A then butlast x else x) in
      5 \<le> length t \<and> take 2 t = ''__'' \<and> drop (length t - 2) t = ''__'' \<and>
      CHR 0x0A \<notin> set (take (length t - 4) (drop 2 t)))"

text \<open>
  What the consumer of a Python generator sees: items, and then either the end of the
  iteration or an exception.
\<close>

datatype 'a gen = Stop | Yield 'a "'a gen" | Raise exn

text \<open>
  An exception leaving a generator's body. In Python 2 a \<^verbatim>\<open>StopIteration\<close> that escapes the
  body is what the consumer takes for the end of the iteration.
\<close>

definition gen_raise :: "exn \<Rightarrow> 'a gen" where
  "gen_raise e = (if e = StopIteration then Stop else Raise e)"

text \<open>
  A module-level object with its \<^verbatim>\<open>thrift_spec\<close> attribute (absent or present), a module
  as \<^verbatim>\<open>getattr\<close> sees it, and the modules \<^verbatim>\<open>__import__\<close> can load.
\<close>

datatype modattr = ModObj (thrift_spec: "pyspec option")

type_synonym pymodule = "string \<Rightarrow> modattr option"

type_synonym modules = "string \<Rightarrow> pymodule option"

text \<open>
  \<^verbatim>\<open>__import__(name, globals(), locals(), fromlist)\<close> with a non-empty \<^verbatim>\<open>fromlist\<close>: the
  module called \<^verbatim>\<open>name\<close>. An empty name is a \<^verbatim>\<open>ValueError\<close>.
\<close>

definition py_import :: "(string \<Rightarrow> 'm option) \<Rightarrow> string \<Rightarrow> exn + 'm" where
  "py_import sys_modules name =
     (if name = [] then Inl ValueError
      else case sys_modules name of None \<Rightarrow> Inl ImportError | Some m \<Rightarrow> Inr m)"

text \<open>The body of \<^verbatim>\<open>for x in dir(interface)\<close>.\<close>

fun service_methods_loop :: "modules \<Rightarrow> string \<Rightarrow> string list \<Rightarrow> (string \<times> pyspec) gen" where
  "service_methods_loop sys_modules base_module_name [] = Stop"
| "service_methods_loop sys_modules base_module_name (x # xs) =
     (if \<not> MAGIC_METHOD_RE_match x then
        (let args_name = x @ ''_args'' in
         case py_import sys_modules base_module_name of
           Inl e \<Rightarrow> gen_raise e
         | Inr base_module \<Rightarrow>
             (case base_module args_name of
                None \<Rightarrow> Raise AttributeError
              | Some args_obj \<Rightarrow>
                  (case thrift_spec args_obj of
                     None \<Rightarrow> Raise AttributeError
                   | Some spec \<Rightarrow>
                       Yield (x, spec) (service_methods_loop sys_modules base_module_name xs))))
      else service_methods_loop sys_modules base_module_name xs)"

definition get_service_methods ::
  "modules \<Rightarrow> ('v, 'b) pyobj \<Rightarrow> (string \<times> pyspec) gen" where
  "get_service_methods sys_modules client =
     (case get_interface client of
        Inl e \<Rightarrow> gen_raise e
      | Inr interface \<Rightarrow>
          (case ob_module interface of
             None \<Rightarrow> Raise AttributeError
           | Some base_module_name \<Rightarrow>
               service_methods_loop sys_modules base_module_name (ob_dir interface)))"

section \<open>proxy_wrapper and the proxy type\<close>

text \<open>
  The function \<^verbatim>\<open>wrapper\<close> that \<^verbatim>\<open>proxy_wrapper\<close> returns: its \<^verbatim>\<open>__doc__\<close> and the two
  variables it closes over.
\<close>

record ('v, 'b) delegate =
  d_doc :: string
  d_method :: "('v, 'b) pymethod"
  d_spec :: pyspec

definition proxy_wrapper ::
  "('v, 'b) pymethod \<Rightarrow> pyspec \<Rightarrow> exn + ('v, 'b) delegate" where
  "proxy_wrapper meth args_thrift_spec =
     (case m_name meth of
        None \<Rightarrow> Inl AttributeError
      | Some name \<Rightarrow>
          (case m_doc meth of
             None \<Rightarrow> Inl TypeError
           | Some doc \<Rightarrow>
               Inr \<lparr>d_doc = ''proxy for '' @ name @ doc, d_method = meth,
                    d_spec = args_thrift_spec\<rparr>))"

text \<open>The body of the loop of \<^verbatim>\<open>make_proxy_methods\<close>, over what \<^verbatim>\<open>get_service_methods\<close> yields.\<close>

fun proxy_methods_loop ::
  "('v, 'b) pyobj \<Rightarrow> (string \<times> pyspec) gen \<Rightarrow> (string \<times> ('v, 'b) delegate) gen" where
  "proxy_methods_loop client Stop = Stop"
| "proxy_methods_loop client (Raise e) = gen_raise e"
| "proxy_methods_loop client (Yield (method_name, thrift_args_spec) g) =
     (case ob_getattr client method_name of
        None \<Rightarrow> Raise AttributeError
      | Some meth \<Rightarrow>
          (case proxy_wrapper meth thrift_args_spec of
             Inl e \<Rightarrow> gen_raise e
           | Inr proxy_method \<Rightarrow>
               Yield (method_name, proxy_method) (proxy_methods_loop client g)))"

definition make_proxy_methods ::
  "modules \<Rightarrow> ('v, 'b) pyobj \<Rightarrow> (string \<times> ('v, 'b) delegate) gen" where
  "make_proxy_methods sys_modules client =
     proxy_methods_loop client (get_service_methods sys_modules client)"

text \<open>\<^verbatim>\<open>dict(pairs)\<close>: a later pair replaces an earlier one with the same key.\<close>

fun dict_gen :: "('k \<times> 'a) gen \<Rightarrow> ('k \<rightharpoonup> 'a) \<Rightarrow> exn + ('k \<rightharpoonup> 'a)" where
  "dict_gen Stop d = Inr d"
| "dict_gen (Raise e) d = Inl e"
| "dict_gen (Yield (k, v) g) d = dict_gen g (d(k \<mapsto> v))"

text \<open>The class made by \<^verbatim>\<open>type(name, (object,), method_dict)\<close>.\<close>

record ('v, 'b) proxy_type =
  ty_name :: string
  ty_bases :: "string list"
  ty_dict :: "string \<rightharpoonup> ('v, 'b) delegate"

definition make_proxy_type ::
  "modules \<Rightarrow> ('v, 'b) pyobj \<Rightarrow> exn + ('v, 'b) proxy_type" where
  "make_proxy_type sys_modules client =
     (case dict_gen (make_proxy_methods sys_modules client) Map.empty of
        Inl e \<Rightarrow> Inl e
      | Inr method_dict \<Rightarrow>
          (case ob_module client of
             None \<Rightarrow> Inl AttributeError
           | Some module_name \<Rightarrow>
               Inr \<lparr>ty_name = module_name @ ''.Proxy'', ty_bases = [''object''],
                    ty_dict = method_dict\<rparr>))"

text \<open>An instance of the proxy class; it has no attributes of its own.\<close>

datatype ('v, 'b) proxy = Instance (proxy_class: "('v, 'b) proxy_type")

definition make_proxy :: "modules \<Rightarrow> ('v, 'b) pyobj \<Rightarrow> exn + ('v, 'b) proxy" where
  "make_proxy sys_modules client =
     (case make_proxy_type sys_modules client of
        Inl e \<Rightarrow> Inl e
      | Inr t \<Rightarrow> Inr (Instance t))"

text \<open>The methods an instance of the proxy class gets from the class's dictionary.\<close>

definition proxy_methods :: "('v, 'b) proxy \<Rightarrow> string \<rightharpoonup> ('v, 'b) delegate" where
  "proxy_methods p = ty_dict (proxy_class p)"

section \<open>The delegate: wrapper\<close>

text \<open>
  The two builtins the delegate applies to the values that pass through it: \<^verbatim>\<open>repr\<close>, and
  whether a value is a tuple (the \<^verbatim>\<open>%\<close> operator spreads a tuple over the format's
  conversions).
\<close>

record 'v builtins =
  py_repr :: "'v \<Rightarrow> string"
  tuple_items :: "'v \<Rightarrow> 'v list option"

text \<open>\<^verbatim>\<open>obj[i]\<close> for an index that is not negative.\<close>

fun py_getitem :: "pyspec \<Rightarrow> nat \<Rightarrow> exn + pyspec" where
  "py_getitem (STuple xs) i = (if i < length xs then Inr (xs ! i) else Inl IndexError)"
| "py_getitem (SStr s) i = (if i < length s then Inr (SStr [s ! i]) else Inl IndexError)"
| "py_getitem SNone i = Inl TypeError"
| "py_getitem (SInt n) i = Inl TypeError"

fun join_strs :: "string \<Rightarrow> string list \<Rightarrow> string" where
  "join_strs sep [] = []"
| "join_strs sep [s] = s"
| "join_strs sep (s # t # ss) = s @ sep @ join_strs sep (t # ss)"

fun str_items :: "pyspec list \<Rightarrow> exn + string list" where
  "str_items [] = Inr []"
| "str_items (SStr s # xs) =
     (case str_items xs of Inl e \<Rightarrow> Inl e | Inr ss \<Rightarrow> Inr (s # ss))"
| "str_items (x # xs) = Inl TypeError"

text \<open>\<^verbatim>\<open>sep.join(items)\<close>: every item has to be a string.\<close>

definition str_join :: "string \<Rightarrow> pyspec list \<Rightarrow> exn + string" where
  "str_join sep items =
     (case str_items items of Inl e \<Rightarrow> Inl e | Inr ss \<Rightarrow> Inr (join_strs sep ss))"

text \<open>Running through a generator expression: the items up to the first one that raises.\<close>

fun collect :: "(exn + 'a) list \<Rightarrow> exn + 'a list" where
  "collect [] = Inr []"
| "collect (Inl e # xs) = Inl e"
| "collect (Inr x # xs) =
     (case collect xs of Inl e \<Rightarrow> Inl e | Inr ys \<Rightarrow> Inr (x # ys))"

text \<open>\<^verbatim>\<open>'='.join((args_thrift_spec[1 + x][2], repr(varargs[x])))\<close>\<close>

definition varargs_item :: "'v builtins \<Rightarrow> pyspec \<Rightarrow> 'v list \<Rightarrow> nat \<Rightarrow> exn + string" where
  "varargs_item bi args_thrift_spec varargs x =
     (case py_getitem args_thrift_spec (1 + x) of
        Inl e \<Rightarrow> Inl e
      | Inr entry \<Rightarrow>
          (case py_getitem entry 2 of
             Inl e \<Rightarrow> Inl e
           | Inr label \<Rightarrow> str_join ''='' [label, SStr (py_repr bi (varargs ! x))]))"

definition varargs_gen :: "'v builtins \<Rightarrow> pyspec \<Rightarrow> 'v list \<Rightarrow> (exn + string) list" where
  "varargs_gen bi args_thrift_spec varargs =
     map (varargs_item bi args_thrift_spec varargs) [0..<length varargs]"

text \<open>
  \<^verbatim>\<open>('='.join((key, repr(value),) for (key, value) in kwargs.iteritems()))\<close>: one call of
  \<^verbatim>\<open>join\<close>, over the tuples the generator expression yields. The keyword arguments are
  listed in the order the dictionary iterates.
\<close>

definition kwargs_gen :: "'v builtins \<Rightarrow> (string \<times> 'v) list \<Rightarrow> exn + string" where
  "kwargs_gen bi kwargs =
     str_join ''='' (map (\<lambda>(key, val). STuple [SStr key, SStr (py_repr bi val)]) kwargs)"

text \<open>
  \<^verbatim>\<open>'%s(%s)' % (method.__name__, ', '.join(chain(varargs_gen, kwargs_gen)))\<close>, with
  \<^verbatim>\<open>kwargs_gen\<close> computed first; iterating over the string \<^verbatim>\<open>kwargs_gen\<close> gives its
  characters.
\<close>

definition call_text ::
  "'v builtins \<Rightarrow> ('v, 'b) pymethod \<Rightarrow> pyspec \<Rightarrow> 'v list \<Rightarrow> (string \<times> 'v) list \<Rightarrow> exn + string" where
  "call_text bi meth args_thrift_spec varargs kwargs =
     (case kwargs_gen bi kwargs of
        Inl e \<Rightarrow> Inl e
      | Inr kwargs_str \<Rightarrow>
          (case m_name meth of
             None \<Rightarrow> Inl AttributeError
           | Some name \<Rightarrow>
               (case collect (varargs_gen bi args_thrift_spec varargs) of
                  Inl e \<Rightarrow> Inl e
                | Inr items \<Rightarrow>
                    (case str_join '', '' (map SStr items @ map (\<lambda>c. SStr [c]) kwargs_str) of
                       Inl e \<Rightarrow> Inl e
                     | Inr arglist \<Rightarrow> Inr (name @ ''('' @ arglist @ '')'')))))"

text \<open>\<^verbatim>\<open>' -> %r' % result\<close>\<close>

definition result_text :: "'v builtins \<Rightarrow> 'v \<Rightarrow> exn + string" where
  "result_text bi result =
     (case tuple_items bi result of
        None \<Rightarrow> Inr ('' -> '' @ py_repr bi result)
      | Some items \<Rightarrow>
          (case items of
             [x] \<Rightarrow> Inr ('' -> '' @ py_repr bi x)
           | _ \<Rightarrow> Inl TypeError))"

text \<open>
  The \<^verbatim>\<open>print\<close> statement of Python 2. Writing an item first writes a space when
  \<^verbatim>\<open>softspace\<close> is set, and sets it again unless the item ends in whitespace other than a
  space; the newline that ends the statement clears it.
\<close>

definition isspace :: "char \<Rightarrow> bool" where
  "isspace c = (c \<in> set [CHR 0x20, CHR 0x09, CHR 0x0A, CHR 0x0B, CHR 0x0C, CHR 0x0D])"

definition print_item :: "string \<Rightarrow> ('v, 'b) world \<Rightarrow> ('v, 'b) world" where
  "print_item s w =
     w\<lparr>events := events w @ (if softspace w then [Wrote '' ''] else []) @ [Wrote s],
       softspace := (s = [] \<or> \<not> isspace (last s) \<or> last s = CHR 0x20)\<rparr>"

definition print_newline :: "('v, 'b) world \<Rightarrow> ('v, 'b) world" where
  "print_newline w = w\<lparr>events := events w @ [Wrote ''\<newline>''], softspace := False\<rparr>"

text \<open>\<^verbatim>\<open>method(*varargs, **kwargs)\<close>\<close>

definition invoke ::
  "('v, 'b) pymethod \<Rightarrow> 'v list \<Rightarrow> (string \<times> 'v) list \<Rightarrow> ('v, 'b) world \<Rightarrow> (exn + 'v) \<times> ('v, 'b) world" where
  "invoke meth varargs kwargs w =
     (case m_call meth varargs kwargs (backend w) of
        (r, b) \<Rightarrow>
          (r, w\<lparr>events := events w @ [Invoked (m_name meth) varargs kwargs], backend := b\<rparr>))"

text \<open>Lines 61 to 66: the trace before the call.\<close>

definition trace_call ::
  "'v builtins \<Rightarrow> globals \<Rightarrow> ('v, 'b) pymethod \<Rightarrow> pyspec \<Rightarrow> 'v list \<Rightarrow> (string \<times> 'v) list \<Rightarrow>
   ('v, 'b) world \<Rightarrow> exn + ('v, 'b) world" where
  "trace_call bi g meth args_thrift_spec varargs kwargs w =
     (if tracing g then
        (case call_text bi meth args_thrift_spec varargs kwargs of
           Inl e \<Rightarrow> Inl e
         | Inr line \<Rightarrow>
             (let w1 = print_item line w in
              Inr (if \<not> return_values g then print_newline w1 else w1)))
      else Inr w)"

text \<open>
  \<^verbatim>\<open>def wrapper(client, *varargs, **kwargs)\<close>, stored in the proxy class and called as a
  method of the proxy: the proxy instance is bound to the first parameter \<^verbatim>\<open>client\<close>, the
  positional arguments of the call to \<^verbatim>\<open>varargs\<close> and its keyword arguments to
  \<^verbatim>\<open>kwargs\<close>. A keyword argument named \<^verbatim>\<open>client\<close> is a second value for the first
  parameter: the call raises \<^verbatim>\<open>TypeError\<close> before the body runs.
\<close>

definition wrapper ::
  "'v builtins \<Rightarrow> globals \<Rightarrow> ('v, 'b) pymethod \<Rightarrow> pyspec \<Rightarrow> 'v list \<Rightarrow> (string \<times> 'v) list \<Rightarrow>
   ('v, 'b) world \<Rightarrow> (exn + 'v) \<times> ('v, 'b) world" where
  "wrapper bi g meth args_thrift_spec varargs kwargs w =
     (if ''client'' \<in> set (map fst kwargs) then (Inl TypeError, w)
      else
        (case trace_call bi g meth args_thrift_spec varargs kwargs w of
           Inl e \<Rightarrow> (Inl e, w)
         | Inr w1 \<Rightarrow>
             (case invoke meth varargs kwargs w1 of
                (Inl e, w2) \<Rightarrow> (Inl e, w2)
              | (Inr result, w2) \<Rightarrow>
                  if tracing g \<and> return_values g then
                    (case result_text bi result of
                       Inl e \<Rightarrow> (Inl e, w2)
                     | Inr s \<Rightarrow> (Inr result, print_newline (print_item s w2)))
                  else (Inr result, w2))))"

text \<open>A call of a delegate held by the proxy: \<^verbatim>\<open>proxy.name(*varargs, **kwargs)\<close>.\<close>

definition call_delegate ::
  "'v builtins \<Rightarrow> globals \<Rightarrow> ('v, 'b) delegate \<Rightarrow> 'v list \<Rightarrow> (string \<times> 'v) list \<Rightarrow>
   ('v, 'b) world \<Rightarrow> (exn + 'v) \<times> ('v, 'b) world" where
  "call_delegate bi g d varargs kwargs w = wrapper bi g (d_method d) (d_spec d) varargs kwargs w"

text \<open>The text on \<^verbatim>\<open>sys.stdout\<close>, and the backend invocations, of a list of events.\<close>

fun written :: "'v event list \<Rightarrow> string" where
  "written [] = []"
| "written (Wrote s # es) = s @ written es"
| "written (Invoked n a k # es) = written es"

fun invocations :: "'v event list \<Rightarrow> (string option \<times> 'v list \<times> (string \<times> 'v) list) list" where
  "invocations [] = []"
| "invocations (Wrote s # es) = invocations es"
| "invocations (Invoked n a k # es) = (n, a, k) # invocations es"

section \<open>make_client\<close>

text \<open>
  The calls the scope makes into the Thrift library, in order, and the run of the
  \<^verbatim>\<open>with\<close> block.
\<close>

datatype conn_event =
    TSocket_init
  | Transport_init bool
  | Protocol_init
  | Client_init
  | Transport_open
  | Body_run
  | Transport_close

text \<open>
  How each of those calls ends: an exception, or a normal return (for the client
  constructor, the client).
\<close>

record 'c thrift_lib =
  TSocket_raises :: "exn option"
  Transport_raises :: "exn option"
  TBinaryProtocol_raises :: "exn option"
  client_interface :: "exn + 'c"
  open_raises :: "exn option"
  close_raises :: "exn option"

text \<open>The \<^verbatim>\<open>try\<close> block, with the \<^verbatim>\<open>with\<close> block run at the \<^verbatim>\<open>yield\<close>.\<close>

definition make_client_try ::
  "'c thrift_lib \<Rightarrow> ('c \<Rightarrow> exn + 'r) \<Rightarrow> conn_event list \<Rightarrow> (exn + 'r) \<times> conn_event list" where
  "make_client_try lib body log =
     (case TBinaryProtocol_raises lib of
        Some e \<Rightarrow> (Inl e, log @ [Protocol_init])
      | None \<Rightarrow>
          (case client_interface lib of
             Inl e \<Rightarrow> (Inl e, log @ [Protocol_init, Client_init])
           | Inr client \<Rightarrow>
               (case open_raises lib of
                  Some e \<Rightarrow> (Inl e, log @ [Protocol_init, Client_init, Transport_open])
                | None \<Rightarrow>
                    (body client,
                     log @ [Protocol_init, Client_init, Transport_open, Body_run]))))"

text \<open>
  \<^verbatim>\<open>with make_client(client_interface, port, hostname, buffered) as client: body\<close>. The
  \<^verbatim>\<open>finally\<close> clause runs however the \<^verbatim>\<open>try\<close> block ends, and an exception of
  \<^verbatim>\<open>close\<close> replaces the outcome.
\<close>

definition make_client ::
  "'c thrift_lib \<Rightarrow> bool \<Rightarrow> ('c \<Rightarrow> exn + 'r) \<Rightarrow> (exn + 'r) \<times> conn_event list" where
  "make_client lib buffered body =
     (case TSocket_raises lib of
        Some e \<Rightarrow> (Inl e, [TSocket_init])
      | None \<Rightarrow>
          (case Transport_raises lib of
             Some e \<Rightarrow> (Inl e, [TSocket_init, Transport_init buffered])
           | None \<Rightarrow>
               (case make_client_try lib body [TSocket_init, Transport_init buffered] of
                  (r, log) \<Rightarrow>
                    (case close_raises lib of
                       Some e \<Rightarrow> (Inl e, log @ [Transport_close])
                     | None \<Rightarrow> (r, log @ [Transport_close])))))"

definition close_calls :: "conn_event list \<Rightarrow> nat" where
  "close_calls log = length (filter (\<lambda>e. e = Transport_close) log)"

section \<open>main: loading the service's types\<close>

text \<open>\<^verbatim>\<open>s.endswith(suffix)\<close>\<close>

definition endswith :: "string \<Rightarrow> string \<Rightarrow> bool" where
  "endswith s suffix = (length suffix \<le> length s \<and> drop (length s - length suffix) s = suffix)"

text \<open>\<^verbatim>\<open>client_type[:-7] if client_type.endswith('.Client') else client_type\<close>\<close>

definition base_module_name_of :: "string \<Rightarrow> string" where
  "base_module_name_of client_type =
     (if endswith client_type ''.Client'' then take (length client_type - 7) client_type
      else client_type)"

text \<open>Lines 126 to 129: the client type and the processor type.\<close>

definition main_load_types :: "(string \<Rightarrow> (string \<Rightarrow> 'a option) option) \<Rightarrow> string \<Rightarrow> exn + 'a \<times> 'a" where
  "main_load_types sys_modules client_type =
     (let base_module_name = base_module_name_of client_type in
      case py_import sys_modules base_module_name of
        Inl e \<Rightarrow> Inl e
      | Inr base_module \<Rightarrow>
          (case base_module ''Client'' of
             None \<Rightarrow> Inl AttributeError
           | Some client_type' \<Rightarrow>
               (case base_module ''Processor'' of
                  None \<Rightarrow> Inl AttributeError
                | Some processor_type \<Rightarrow> Inr (client_type', processor_type))))"

section \<open>A caller of the proxy\<close>

text \<open>
  \<^verbatim>\<open>getattr(proxy, name)(*args, **kwargs)\<close> for the name of a service method, as the
  processor does for each request it decodes, and a run of such calls one after the other.
  The attributes the proxy inherits from \<^verbatim>\<open>object\<close> are not part of the model.
\<close>

record 'v call =
  c_name :: string
  c_args :: "'v list"
  c_kwargs :: "(string \<times> 'v) list"

definition proxy_call ::
  "'v builtins \<Rightarrow> globals \<Rightarrow> ('v, 'b) proxy \<Rightarrow> 'v call \<Rightarrow> ('v, 'b) world \<Rightarrow>
   (exn + 'v) \<times> ('v, 'b) world" where
  "proxy_call bi g p c w =
     (case proxy_methods p (c_name c) of
        None \<Rightarrow> (Inl AttributeError, w)
      | Some d \<Rightarrow> call_delegate bi g d (c_args c) (c_kwargs c) w)"

fun proxy_calls ::
  "'v builtins \<Rightarrow> globals \<Rightarrow> ('v, 'b) proxy \<Rightarrow> 'v call list \<Rightarrow> ('v, 'b) world \<Rightarrow>
   (exn + 'v) list \<times> ('v, 'b) world" where
  "proxy_calls bi g p [] w = ([], w)"
| "proxy_calls bi g p (c # cs) w =
     (case proxy_call bi g p c w of
        (r, w1) \<Rightarrow> (case proxy_calls bi g p cs w1 of (rs, w2) \<Rightarrow> (r # rs, w2)))"

text \<open>The same calls made on the bound backend methods themselves.\<close>

definition backend_call ::
  "('v, 'b) proxy \<Rightarrow> 'v call \<Rightarrow> 'b \<Rightarrow> (exn + 'v) \<times> 'b" where
  "backend_call p c b =
     (case proxy_methods p (c_name c) of
        None \<Rightarrow> (Inl AttributeError, b)
      | Some d \<Rightarrow> m_call (d_method d) (c_args c) (c_kwargs c) b)"

fun backend_calls ::
  "('v, 'b) proxy \<Rightarrow> 'v call list \<Rightarrow> 'b \<Rightarrow> (exn + 'v) list \<times> 'b" where
  "backend_calls p [] b = ([], b)"
| "backend_calls p (c # cs) b =
     (case backend_call p c b of
        (r, b1) \<Rightarrow> (case backend_calls p cs b1 of (rs, b2) \<Rightarrow> (r # rs, b2)))"

section \<open>Example objects\<close>

text \<open>
  \<^verbatim>\<open>repr\<close> of a Python 2 \<^verbatim>\<open>str\<close>: double quotes when the string has a single quote and no
  double quote, a backslash before the quote and the backslash, \<^verbatim>\<open>\t\<close>, \<^verbatim>\<open>\n\<close>, \<^verbatim>\<open>\r\<close>,
  and \<^verbatim>\<open>\xNN\<close> for the other bytes outside the printable ASCII range.
\<close>

definition hex_digit :: "nat \<Rightarrow> char" where
  "hex_digit n = ''0123456789abcdef'' ! (n mod 16)"

definition repr_char :: "char \<Rightarrow> char \<Rightarrow> string" where
  "repr_char quote c =
     (if c = quote \<or> c = CHR 0x5C then [CHR 0x5C, c]
      else if c = CHR 0x09 then [CHR 0x5C, CHR ''t'']
      else if c = CHR 0x0A then [CHR 0x5C, CHR ''n'']
      else if c = CHR 0x0D then [CHR 0x5C, CHR ''r'']
      else if (of_char c :: nat) < 32 \<or> 127 \<le> (of_char c :: nat)
        then [CHR 0x5C, CHR ''x'', hex_digit (of_char c div 16), hex_digit (of_char c)]
      else [c])"

definition str_repr :: "string \<Rightarrow> string" where
  "str_repr s =
     (let quote = (if CHR 0x27 \<in> set s \<and> CHR 0x22 \<notin> set s then CHR 0x22 else CHR 0x27)
      in [quote] @ concat (map (repr_char quote) s) @ [quote])"

definition str_builtins :: "string builtins" where
  "str_builtins = \<lparr>py_repr = str_repr, tuple_items = (\<lambda>_. None)\<rparr>"

text \<open>
  The service \<^verbatim>\<open>Echo\<close> with one method \<^verbatim>\<open>string echo(1: string message)\<close>: the generated
  module, its classic classes \<^verbatim>\<open>Iface\<close> and \<^verbatim>\<open>Client\<close>, and a client whose backend
  returns the message and counts the calls it has served.
\<close>

definition echo_args_thrift_spec :: pyspec where
  "echo_args_thrift_spec =
     STuple [SNone, STuple [SInt 1, SInt 11, SStr ''message'', SNone, SNone]]"

definition Echo_module :: pymodule where
  "Echo_module a =
     (if a = ''echo_args'' then Some (ModObj (Some echo_args_thrift_spec))
      else if a = ''Client'' \<or> a = ''Processor'' \<or> a = ''Iface'' then Some (ModObj None)
      else None)"

definition Echo_modules :: modules where
  "Echo_modules n = (if n = ''Echo'' then Some Echo_module else None)"

definition echo_call :: "string list \<Rightarrow> (string \<times> string) list \<Rightarrow> nat \<Rightarrow> (exn + string) \<times> nat" where
  "echo_call varargs kwargs b =
     (case (varargs, kwargs) of
        ([message], []) \<Rightarrow> (Inr message, Suc b)
      | ([], [(key, message)]) \<Rightarrow>
          if key = ''message'' then (Inr message, Suc b) else (Inl TypeError, b)
      | _ \<Rightarrow> (Inl TypeError, b))"

definition echo_method :: "(string, nat) pymethod" where
  "echo_method = \<lparr>m_name = Some ''echo'', m_doc = Some '' Parameters: - message '',
                   m_call = echo_call\<rparr>"

definition echo_attrs :: "string \<Rightarrow> (string, nat) pymethod option" where
  "echo_attrs a = (if a = ''echo'' then Some echo_method else None)"

definition no_attrs :: "string \<Rightarrow> (string, nat) pymethod option" where
  "no_attrs = (\<lambda>_. None)"

definition Echo_Iface :: "(string, nat) pyobj" where
  "Echo_Iface = PyObj None (Some ''Iface'') (Some ''Echo'') (Some [])
     [''__doc__'', ''__module__'', ''echo''] no_attrs"

definition Echo_Client :: "(string, nat) pyobj" where
  "Echo_Client = PyObj None (Some ''Client'') (Some ''Echo'') (Some [Echo_Iface])
     [''__doc__'', ''__init__'', ''__module__'', ''echo'', ''recv_echo'', ''send_echo'']
     no_attrs"

definition echo_client :: "(string, nat) pyobj" where
  "echo_client = PyObj (Some Echo_Client) None (Some ''Echo'') None
     [''__doc__'', ''__init__'', ''__module__'', ''_iprot'', ''_oprot'', ''_seqid'', ''echo'',
      ''recv_echo'', ''send_echo'']
     echo_attrs"

definition echo_delegate :: "(string, nat) delegate" where
  "echo_delegate = \<lparr>d_doc = ''proxy for echo Parameters: - message '',
                     d_method = echo_method, d_spec = echo_args_thrift_spec\<rparr>"

definition echo_proxy :: "(string, nat) proxy" where
  "echo_proxy = Instance \<lparr>ty_name = ''Echo.Proxy'', ty_bases = [''object''],
                          ty_dict = [''echo'' \<mapsto> echo_delegate]\<rparr>"

definition world0 :: "(string, nat) world" where
  "world0 = \<lparr>events = [], softspace = False, backend = 0\<rparr>"

definition newstyle_type :: "(string, nat) pyobj" where
  "newstyle_type = PyObj None (Some ''type'') (Some ''__builtin__'') (Some []) [] no_attrs"

definition NewStyle_Client :: "(string, nat) pyobj" where
  "NewStyle_Client = PyObj (Some newstyle_type) (Some ''Client'') (Some ''Echo'') (Some [])
     [] no_attrs"

definition newstyle_client :: "(string, nat) pyobj" where
  "newstyle_client = PyObj (Some NewStyle_Client) None (Some ''Echo'') None [] no_attrs"

section \<open>Auxiliary definitions for the proofs\<close>

text \<open>
  The delegate that one pass of the two loops builds for the name \<open>x\<close>, when every lookup on
  the way succeeds.
\<close>

definition delegate_for :: "modules \<Rightarrow> string \<Rightarrow> ('v, 'b) pyobj \<Rightarrow> string \<Rightarrow> ('v, 'b) delegate option" where
  "delegate_for sys_modules base_module_name client x =
     (case py_import sys_modules base_module_name of
        Inl e \<Rightarrow> None
      | Inr base_module \<Rightarrow>
          (case base_module (x @ ''_args'') of
             None \<Rightarrow> None
           | Some args_obj \<Rightarrow>
               (case thrift_spec args_obj of
                  None \<Rightarrow> None
                | Some spec \<Rightarrow>
                    (case ob_getattr client x of
                       None \<Rightarrow> None
                     | Some meth \<Rightarrow>
                         (case proxy_wrapper meth spec of
                            Inl e \<Rightarrow> None
                          | Inr d \<Rightarrow> Some d)))))"

text \<open>
  An interface with a second method \<^verbatim>\<open>ping\<close> for which the module has no \<^verbatim>\<open>ping_args\<close>,
  and a client whose \<^verbatim>\<open>echo\<close> has no docstring.
\<close>

definition Ping_Iface :: "(string, nat) pyobj" where
  "Ping_Iface = PyObj None (Some ''Iface'') (Some ''Echo'') (Some [])
     [''__doc__'', ''__module__'', ''echo'', ''ping''] no_attrs"

definition Ping_Client :: "(string, nat) pyobj" where
  "Ping_Client = PyObj None (Some ''Client'') (Some ''Echo'') (Some [Ping_Iface])
     [''__doc__'', ''__init__'', ''__module__'', ''echo'', ''ping''] no_attrs"

definition ping_client :: "(string, nat) pyobj" where
  "ping_client = PyObj (Some Ping_Client) None (Some ''Echo'') None
     [''__doc__'', ''__init__'', ''__module__'', ''echo'', ''ping''] echo_attrs"

definition undocumented_attrs :: "string \<Rightarrow> (string, nat) pymethod option" where
  "undocumented_attrs a = (if a = ''echo'' then Some (echo_method\<lparr>m_doc := None\<rparr>) else None)"

definition undocumented_client :: "(string, nat) pyobj" where
  "undocumented_client = PyObj (Some Echo_Client) None (Some ''Echo'') None
     [''__doc__'', ''__init__'', ''__module__'', ''echo''] undocumented_attrs"

text \<open>A backend method that always fails, as when the connection to the backend is lost.\<close>

definition failing_method :: "(string, nat) pymethod" where
  "failing_method = \<lparr>m_name = Some ''echo'', m_doc = Some '' Parameters: - message '',
                      m_call = (\<lambda>varargs kwargs b. (Inl (Thrown ''TTransportException''), b))\<rparr>"

text \<open>A backend that cannot be reached, and one that can.\<close>

definition unreachable_lib :: "nat thrift_lib" where
  "unreachable_lib = \<lparr>TSocket_raises = None, Transport_raises = None,
     TBinaryProtocol_raises = None, client_interface = Inr 0,
     open_raises = Some (Thrown ''TTransportException''), close_raises = None\<rparr>"

definition reachable_lib :: "nat thrift_lib" where
  "reachable_lib = unreachable_lib\<lparr>open_raises := None\<rparr>"

text \<open>The module \<^verbatim>\<open>Echo\<close> with its two types, each standing for itself.\<close>

definition Echo_types :: "string \<Rightarrow> (string \<Rightarrow> string option) option" where
  "Echo_types n =
     (if n = ''Echo'' then
        Some (\<lambda>a. if a = ''Client'' then Some ''Echo.Client''
                  else if a = ''Processor'' then Some ''Echo.Processor'' else None)
      else None)"

text \<open>
  A service with the method \<^verbatim>\<open>string register(1: string client)\<close>, whose parameter has the
  name of the delegate's first parameter, and a schema whose field ids are 1 and 3.
\<close>

definition register_args_thrift_spec :: pyspec where
  "register_args_thrift_spec =
     STuple [SNone, STuple [SInt 1, SInt 11, SStr ''client'', SNone, SNone]]"

definition register_call :: "string list \<Rightarrow> (string \<times> string) list \<Rightarrow> nat \<Rightarrow> (exn + string) \<times> nat" where
  "register_call varargs kwargs b =
     (case (varargs, kwargs) of
        ([client], []) \<Rightarrow> (Inr ''ok'', Suc b)
      | ([], [(key, client)]) \<Rightarrow>
          if key = ''client'' then (Inr ''ok'', Suc b) else (Inl TypeError, b)
      | _ \<Rightarrow> (Inl TypeError, b))"

definition register_method :: "(string, nat) pymethod" where
  "register_method = \<lparr>m_name = Some ''register'', m_doc = Some '' Parameters: - client '',
                       m_call = register_call\<rparr>"

definition register_delegate :: "(string, nat) delegate" where
  "register_delegate = \<lparr>d_doc = ''proxy for register Parameters: - client '',
                         d_method = register_method, d_spec = register_args_thrift_spec\<rparr>"

definition register_proxy :: "(string, nat) proxy" where
  "register_proxy = Instance \<lparr>ty_name = ''Registry.Proxy'', ty_bases = [''object''],
                              ty_dict = [''register'' \<mapsto> register_delegate]\<rparr>"

definition register_keyword :: "string call" where
  "register_keyword = \<lparr>c_name = ''register'', c_args = [], c_kwargs = [(''client'', ''x'')]\<rparr>"

definition register_positional :: "string call" where
  "register_positional = \<lparr>c_name = ''register'', c_args = [''x''], c_kwargs = []\<rparr>"

definition gapped_args_thrift_spec :: pyspec where
  "gapped_args_thrift_spec =
     STuple [SNone, STuple [SInt 1, SInt 11, SStr ''a'', SNone, SNone], SNone,
             STuple [SInt 3, SInt 11, SStr ''b'', SNone, SNone]]"

definition trace_on :: globals where
  "trace_on = \<lparr>tracing = True, return_values = False\<rparr>"

definition trace_off :: globals where
  "trace_off = \<lparr>tracing = False, return_values = True\<rparr>"

definition echo_hi :: "string call" where
  "echo_hi = \<lparr>c_name = ''echo'', c_args = [''hi''], c_kwargs = []\<rparr>"

section \<open>Properties of get_interface\<close>

text \<open>
  C10: get_interface asserts that the resolved class object has no \<^verbatim>\<open>__class__\<close>
  attribute before anything else: whenever the resolved class carries one (a new-style
  class) the result is an AssertionError; an interface is returned only for a resolved
  class without it; and when such a class is itself named Iface the original argument
  comes back unchanged, whatever its bases are.
\<close>

theorem get_interface_classic_only:
  "(ob_class (class_of client) \<noteq> None \<longrightarrow> get_interface client = Inl AssertionError) \<and>
   (get_interface client = Inr i \<longrightarrow> ob_class (class_of client) = None) \<and>
   (ob_class (class_of client) = None \<and> ob_name (class_of client) = Some ''Iface''
      \<longrightarrow> get_interface client = Inr client)"
  by (auto simp: get_interface_def Let_def split: option.splits if_splits)

theorem get_interface_classic_only_witness:
  "get_interface newstyle_client = Inl AssertionError \<and>
   get_interface Echo_Iface = Inr Echo_Iface \<and>
   ob_class (class_of Echo_Iface) = None"
proof -
  have a: "ob_class (class_of newstyle_client) \<noteq> None"
    by (simp add: class_of_def newstyle_client_def NewStyle_Client_def)
  have b: "ob_class (class_of Echo_Iface) = None \<and> ob_name (class_of Echo_Iface) = Some ''Iface''"
    by (simp add: class_of_def Echo_Iface_def)
  have c: "get_interface Echo_Iface = Inr Echo_Iface"
    using get_interface_classic_only [of Echo_Iface Echo_Iface] b by blast
  show ?thesis
    using get_interface_classic_only [of newstyle_client Echo_Iface]
          get_interface_classic_only [of Echo_Iface Echo_Iface] a b c
    by blast
qed

section \<open>Properties of make_proxy\<close>

lemma py_import_not_StopIteration: "py_import sm n = Inl e \<Longrightarrow> e \<noteq> StopIteration"
  by (auto simp: py_import_def split: if_splits option.splits)

lemma proxy_wrapper_not_StopIteration: "proxy_wrapper m s = Inl e \<Longrightarrow> e \<noteq> StopIteration"
  by (auto simp: proxy_wrapper_def split: option.splits)

lemma gen_raise_Raise: "e \<noteq> StopIteration \<Longrightarrow> gen_raise e = Raise e"
  by (simp add: gen_raise_def)

lemma build_dict_success:
  "\<forall>x\<in>set xs. \<not> MAGIC_METHOD_RE_match x \<longrightarrow> delegate_for sm bm client x \<noteq> None \<Longrightarrow>
   dict_gen (proxy_methods_loop client (service_methods_loop sm bm xs)) d =
     Inr (\<lambda>x. if x \<in> set xs \<and> \<not> MAGIC_METHOD_RE_match x then delegate_for sm bm client x else d x)"
proof (induction xs arbitrary: d)
  case Nil
  then show ?case by simp
next
  case (Cons y ys)
  show ?case
  proof (cases "MAGIC_METHOD_RE_match y")
    case True
    have "(\<lambda>x. if x \<in> set ys \<and> \<not> MAGIC_METHOD_RE_match x then delegate_for sm bm client x else d x)
        = (\<lambda>x. if x \<in> set (y # ys) \<and> \<not> MAGIC_METHOD_RE_match x then delegate_for sm bm client x else d x)"
      using True by auto
    with Cons True show ?thesis by simp
  next
    case False
    with Cons.prems obtain dl where dl: "delegate_for sm bm client y = Some dl" by auto
    have rest: "\<forall>x\<in>set ys. \<not> MAGIC_METHOD_RE_match x \<longrightarrow> delegate_for sm bm client x \<noteq> None"
      using Cons.prems by simp
    have step: "dict_gen (proxy_methods_loop client (service_methods_loop sm bm (y # ys))) d
        = dict_gen (proxy_methods_loop client (service_methods_loop sm bm ys)) (d(y \<mapsto> dl))"
      using dl False
      by (auto simp: delegate_for_def Let_def split: sum.splits option.splits)
    have "(\<lambda>x. if x \<in> set ys \<and> \<not> MAGIC_METHOD_RE_match x then delegate_for sm bm client x else (d(y \<mapsto> dl)) x)
        = (\<lambda>x. if x \<in> set (y # ys) \<and> \<not> MAGIC_METHOD_RE_match x then delegate_for sm bm client x else d x)"
      using dl False by auto
    with step Cons.IH [OF rest, of "d(y \<mapsto> dl)"] show ?thesis by simp
  qed
qed

lemma build_dict_failure:
  "x \<in> set xs \<Longrightarrow> \<not> MAGIC_METHOD_RE_match x \<Longrightarrow> delegate_for sm bm client x = None \<Longrightarrow>
   \<exists>e. dict_gen (proxy_methods_loop client (service_methods_loop sm bm xs)) d = Inl e"
proof (induction xs arbitrary: d)
  case Nil
  then show ?case by simp
next
  case (Cons y ys)
  show ?case
  proof (cases "MAGIC_METHOD_RE_match y")
    case True
    with Cons show ?thesis by auto
  next
    case False
    show ?thesis
    proof (cases "delegate_for sm bm client y")
      case None
      then show ?thesis using False
        by (auto simp: delegate_for_def Let_def gen_raise_Raise
            dest: py_import_not_StopIteration proxy_wrapper_not_StopIteration
            split: sum.splits option.splits)
    next
      case (Some dl)
      with Cons.prems have "x \<in> set ys" by auto
      from Cons.IH [OF this Cons.prems(2,3)]
      obtain e where "dict_gen (proxy_methods_loop client (service_methods_loop sm bm ys)) (d(y \<mapsto> dl)) = Inl e"
        by blast
      moreover have "dict_gen (proxy_methods_loop client (service_methods_loop sm bm (y # ys))) d
        = dict_gen (proxy_methods_loop client (service_methods_loop sm bm ys)) (d(y \<mapsto> dl))"
        using Some False
        by (auto simp: delegate_for_def Let_def split: sum.splits option.splits)
      ultimately show ?thesis by simp
    qed
  qed
qed

lemma make_proxy_type_resolved:
  assumes "get_interface client = Inr iface"
  shows "make_proxy_type sm client =
     (case ob_module iface of
        None \<Rightarrow> Inl AttributeError
      | Some bm \<Rightarrow>
          (case dict_gen (proxy_methods_loop client (service_methods_loop sm bm (ob_dir iface))) Map.empty of
             Inl e \<Rightarrow> Inl e
           | Inr method_dict \<Rightarrow>
               (case ob_module client of
                  None \<Rightarrow> Inl AttributeError
                | Some module_name \<Rightarrow>
                    Inr \<lparr>ty_name = module_name @ ''.Proxy'', ty_bases = [''object''],
                         ty_dict = method_dict\<rparr>)))"
  using assms
  by (simp add: make_proxy_type_def make_proxy_methods_def get_service_methods_def gen_raise_def
      split: option.splits)

lemma make_proxy_methods_resolved:
  assumes "get_interface client = Inr iface" and "make_proxy sm client = Inr p"
  shows "\<exists>bm. ob_module iface = Some bm \<and>
           (\<forall>x\<in>set (ob_dir iface). \<not> MAGIC_METHOD_RE_match x \<longrightarrow> delegate_for sm bm client x \<noteq> None) \<and>
           proxy_methods p =
             (\<lambda>x. if x \<in> set (ob_dir iface) \<and> \<not> MAGIC_METHOD_RE_match x
                  then delegate_for sm bm client x else None)"
proof -
  from assms(2) obtain t where t: "make_proxy_type sm client = Inr t" and p: "p = Instance t"
    by (auto simp: make_proxy_def split: sum.splits)
  from t obtain bm where bm: "ob_module iface = Some bm"
    by (auto simp: make_proxy_type_resolved [OF assms(1)] split: option.splits)
  let ?g = "dict_gen (proxy_methods_loop client (service_methods_loop sm bm (ob_dir iface))) Map.empty"
  from t bm obtain md where md: "?g = Inr md" and td: "ty_dict t = md"
    by (auto simp: make_proxy_type_resolved [OF assms(1)] split: option.splits sum.splits)
  have all: "\<forall>x\<in>set (ob_dir iface). \<not> MAGIC_METHOD_RE_match x \<longrightarrow> delegate_for sm bm client x \<noteq> None"
  proof (rule ccontr)
    assume "\<not> ?thesis"
    then obtain x where "x \<in> set (ob_dir iface)" "\<not> MAGIC_METHOD_RE_match x"
      "delegate_for sm bm client x = None" by blast
    from build_dict_failure [OF this, of Map.empty] md show False by auto
  qed
  from build_dict_success [OF all, of Map.empty] md
  have "md = (\<lambda>x. if x \<in> set (ob_dir iface) \<and> \<not> MAGIC_METHOD_RE_match x
                  then delegate_for sm bm client x else None)" by simp
  with bm all p td show ?thesis by (simp add: proxy_methods_def)
qed

lemma delegate_for_Some:
  "delegate_for sm bm client x = Some d \<Longrightarrow>
   \<exists>module args_obj spec meth name doc.
     bm \<noteq> [] \<and> sm bm = Some module \<and> module (x @ ''_args'') = Some args_obj \<and>
     thrift_spec args_obj = Some spec \<and> ob_getattr client x = Some meth \<and>
     m_name meth = Some name \<and> m_doc meth = Some doc \<and>
     d = \<lparr>d_doc = ''proxy for '' @ name @ doc, d_method = meth, d_spec = spec\<rparr>"
  by (auto simp: delegate_for_def py_import_def proxy_wrapper_def
      split: sum.splits option.splits if_splits)

text \<open>
  C2: when make_proxy returns a proxy for a client whose interface resolves, the names in
  the proxy class's dictionary are exactly the names that \<^verbatim>\<open>dir(interface)\<close> lists and the
  magic-name pattern does not match: none missing, none added. With the names of \<^verbatim>\<open>dir\<close>
  distinct there are exactly N of them, and each is bound to a delegate around the client's
  method of the same name. (The class's only base is \<^verbatim>\<open>object\<close>, whose own attributes all
  have magic names.)
\<close>

theorem make_proxy_exposes_interface_methods:
  assumes "get_interface client = Inr iface" and "make_proxy sys_modules client = Inr p"
  shows "dom (proxy_methods p) = {x \<in> set (ob_dir iface). \<not> MAGIC_METHOD_RE_match x} \<and>
         (distinct (ob_dir iface) \<longrightarrow>
            card (dom (proxy_methods p)) =
              length (filter (\<lambda>x. \<not> MAGIC_METHOD_RE_match x) (ob_dir iface))) \<and>
         (\<forall>x d. proxy_methods p x = Some d \<longrightarrow> ob_getattr client x = Some (d_method d))"
proof -
  from make_proxy_methods_resolved [OF assms] obtain bm where
    all: "\<forall>x\<in>set (ob_dir iface). \<not> MAGIC_METHOD_RE_match x \<longrightarrow> delegate_for sys_modules bm client x \<noteq> None"
    and pm: "proxy_methods p =
       (\<lambda>x. if x \<in> set (ob_dir iface) \<and> \<not> MAGIC_METHOD_RE_match x
            then delegate_for sys_modules bm client x else None)"
    by blast
  have d: "dom (proxy_methods p) = {x \<in> set (ob_dir iface). \<not> MAGIC_METHOD_RE_match x}"
    using all by (auto simp: pm dom_def)
  have s: "dom (proxy_methods p) = set (filter (\<lambda>x. \<not> MAGIC_METHOD_RE_match x) (ob_dir iface))"
    using d by auto
  have c: "distinct (ob_dir iface) \<longrightarrow>
      card (dom (proxy_methods p)) = length (filter (\<lambda>x. \<not> MAGIC_METHOD_RE_match x) (ob_dir iface))"
  proof
    assume dd: "distinct (ob_dir iface)"
    have "card (set (filter (\<lambda>x. \<not> MAGIC_METHOD_RE_match x) (ob_dir iface))) =
          length (filter (\<lambda>x. \<not> MAGIC_METHOD_RE_match x) (ob_dir iface))"
      by (rule distinct_card) (simp add: dd)
    then show "card (dom (proxy_methods p)) =
          length (filter (\<lambda>x. \<not> MAGIC_METHOD_RE_match x) (ob_dir iface))"
      unfolding s .
  qed
  have m: "\<forall>x d. proxy_methods p x = Some d \<longrightarrow> ob_getattr client x = Some (d_method d)"
    by (auto simp: pm dest: delegate_for_Some split: if_splits)
  from d c m show ?thesis by blast
qed

text \<open>
  C4: if some name of the interface that the magic-name pattern does not match has no
  schema (the interface's module has no \<^verbatim>\<open>x_args\<close> object, or that object has no
  \<^verbatim>\<open>thrift_spec\<close>), then building the proxy class raises, and so does make_proxy: no proxy
  is returned, not even one with the methods that did have a schema.
\<close>

theorem make_proxy_fails_without_schema:
  assumes "get_interface client = Inr iface"
    and "x \<in> set (ob_dir iface)" and "\<not> MAGIC_METHOD_RE_match x"
    and "\<not> (\<exists>bm module args_obj spec. ob_module iface = Some bm \<and> sys_modules bm = Some module \<and>
              module (x @ ''_args'') = Some args_obj \<and> thrift_spec args_obj = Some spec)"
  shows "\<exists>e. make_proxy_type sys_modules client = Inl e \<and> make_proxy sys_modules client = Inl e"
proof (cases "make_proxy sys_modules client")
  case (Inl e)
  then show ?thesis by (auto simp: make_proxy_def split: sum.splits)
next
  case (Inr p)
  from make_proxy_methods_resolved [OF assms(1) Inr] obtain bm where bm: "ob_module iface = Some bm"
    and all: "\<forall>x\<in>set (ob_dir iface). \<not> MAGIC_METHOD_RE_match x \<longrightarrow> delegate_for sys_modules bm client x \<noteq> None"
    by blast
  from all assms(2,3) obtain d where "delegate_for sys_modules bm client x = Some d" by auto
  from delegate_for_Some [OF this] bm assms(4) show ?thesis by blast
qed

text \<open>
  C9: every delegate of a proxy that make_proxy returns has the docstring
  \<^verbatim>\<open>'proxy for ' + method.__name__ + method.__doc__\<close> of the client method it wraps, which
  therefore has a docstring; and when a method discovered on the interface has the docstring
  \<^verbatim>\<open>None\<close>, make_proxy raises instead of returning a proxy.
\<close>

theorem make_proxy_requires_docstrings:
  "(make_proxy sys_modules client = Inr p \<and> proxy_methods p x = Some d \<longrightarrow>
      (\<exists>meth name doc. ob_getattr client x = Some meth \<and> m_name meth = Some name \<and>
         m_doc meth = Some doc \<and> d_doc d = ''proxy for '' @ name @ doc)) \<and>
   (get_interface client = Inr iface \<and> y \<in> set (ob_dir iface) \<and> \<not> MAGIC_METHOD_RE_match y \<and>
    ob_getattr client y = Some meth' \<and> m_doc meth' = None \<longrightarrow>
      (\<exists>e. make_proxy sys_modules client = Inl e))"
proof (intro conjI impI)
  assume a: "make_proxy sys_modules client = Inr p \<and> proxy_methods p x = Some d"
  show "\<exists>meth name doc. ob_getattr client x = Some meth \<and> m_name meth = Some name \<and>
         m_doc meth = Some doc \<and> d_doc d = ''proxy for '' @ name @ doc"
  proof (cases "get_interface client")
    case (Inl e)
    with a have "proxy_methods p x = None"
      by (auto simp: make_proxy_def make_proxy_type_def make_proxy_methods_def
          get_service_methods_def gen_raise_def proxy_methods_def
          split: sum.splits option.splits if_splits)
    with a show ?thesis by simp
  next
    case (Inr iface')
    from make_proxy_methods_resolved [OF Inr] a obtain bm where
      "proxy_methods p =
       (\<lambda>x. if x \<in> set (ob_dir iface') \<and> \<not> MAGIC_METHOD_RE_match x
            then delegate_for sys_modules bm client x else None)" by blast
    with a have "delegate_for sys_modules bm client x = Some d" by (auto split: if_splits)
    from delegate_for_Some [OF this] show ?thesis by auto
  qed
next
  assume b: "get_interface client = Inr iface \<and> y \<in> set (ob_dir iface) \<and> \<not> MAGIC_METHOD_RE_match y \<and>
    ob_getattr client y = Some meth' \<and> m_doc meth' = None"
  show "\<exists>e. make_proxy sys_modules client = Inl e"
  proof (cases "make_proxy sys_modules client")
    case (Inl e)
    then show ?thesis by simp
  next
    case (Inr p)
    from make_proxy_methods_resolved [OF _ Inr] b obtain bm where
      "\<forall>x\<in>set (ob_dir iface). \<not> MAGIC_METHOD_RE_match x \<longrightarrow> delegate_for sys_modules bm client x \<noteq> None"
      by blast
    with b obtain d' where "delegate_for sys_modules bm client y = Some d'" by auto
    from delegate_for_Some [OF this] b show ?thesis by auto
  qed
qed

lemma magic_examples:
  "MAGIC_METHOD_RE_match ''__doc__''" "MAGIC_METHOD_RE_match ''__module__''"
  "\<not> MAGIC_METHOD_RE_match ''echo''" "\<not> MAGIC_METHOD_RE_match ''ping''"
  by (simp_all add: MAGIC_METHOD_RE_match_def)

lemma get_interface_echo_client: "get_interface echo_client = Inr Echo_Iface"
  by (simp add: get_interface_def class_of_def echo_client_def Echo_Client_def Echo_Iface_def)

lemma make_proxy_echo_client: "make_proxy Echo_modules echo_client = Inr echo_proxy"
  by (simp add: make_proxy_def make_proxy_type_def make_proxy_methods_def get_service_methods_def
      get_interface_echo_client magic_examples py_import_def proxy_wrapper_def)
     (simp add: Echo_Iface_def magic_examples py_import_def Echo_modules_def Echo_module_def
      echo_args_thrift_spec_def echo_client_def echo_attrs_def proxy_wrapper_def echo_method_def
      echo_proxy_def echo_delegate_def)

theorem make_proxy_exposes_interface_methods_witness:
  "get_interface echo_client = Inr Echo_Iface \<and>
   make_proxy Echo_modules echo_client = Inr echo_proxy \<and>
   dom (proxy_methods echo_proxy) = {''echo''} \<and>
   card (dom (proxy_methods echo_proxy)) = 1"
proof -
  have dir: "ob_dir Echo_Iface = [''__doc__'', ''__module__'', ''echo'']"
    by (simp add: Echo_Iface_def)
  have names: "{x \<in> set (ob_dir Echo_Iface). \<not> MAGIC_METHOD_RE_match x} = {''echo''}"
    unfolding dir using magic_examples by auto
  have n: "length (filter (\<lambda>x. \<not> MAGIC_METHOD_RE_match x) (ob_dir Echo_Iface)) = 1"
    unfolding dir using magic_examples by simp
  have dist: "distinct (ob_dir Echo_Iface)" unfolding dir by simp
  from make_proxy_exposes_interface_methods [OF get_interface_echo_client make_proxy_echo_client]
    names n dist get_interface_echo_client make_proxy_echo_client
  show ?thesis by simp
qed

lemma get_interface_ping_client: "get_interface ping_client = Inr Ping_Iface"
  by (simp add: get_interface_def class_of_def ping_client_def Ping_Client_def Ping_Iface_def)

theorem make_proxy_fails_without_schema_witness:
  "get_interface ping_client = Inr Ping_Iface \<and> ''ping'' \<in> set (ob_dir Ping_Iface) \<and>
   \<not> MAGIC_METHOD_RE_match ''ping'' \<and> Echo_module ''ping_args'' = None \<and>
   (\<exists>e. make_proxy_type Echo_modules ping_client = Inl e \<and>
        make_proxy Echo_modules ping_client = Inl e)"
proof -
  have a: "''ping'' \<in> set (ob_dir Ping_Iface)" by (simp add: Ping_Iface_def)
  have b: "Echo_module ''ping_args'' = None" by (simp add: Echo_module_def)
  have c: "\<not> (\<exists>bm module args_obj spec. ob_module Ping_Iface = Some bm \<and>
              Echo_modules bm = Some module \<and> module (''ping'' @ ''_args'') = Some args_obj \<and>
              thrift_spec args_obj = Some spec)"
    by (auto simp: Ping_Iface_def Echo_modules_def Echo_module_def split: if_splits)
  from make_proxy_fails_without_schema [OF get_interface_ping_client a magic_examples(4) c]
    get_interface_ping_client a b magic_examples(4)
  show ?thesis by blast
qed

lemma get_interface_undocumented_client: "get_interface undocumented_client = Inr Echo_Iface"
  by (simp add: get_interface_def class_of_def undocumented_client_def Echo_Client_def Echo_Iface_def)

theorem make_proxy_requires_docstrings_witness:
  "make_proxy Echo_modules echo_client = Inr echo_proxy \<and>
   proxy_methods echo_proxy ''echo'' = Some echo_delegate \<and>
   m_name echo_method = Some ''echo'' \<and> m_doc echo_method = Some '' Parameters: - message '' \<and>
   d_doc echo_delegate = ''proxy for '' @ ''echo'' @ '' Parameters: - message '' \<and>
   (\<exists>e. make_proxy Echo_modules undocumented_client = Inl e)"
proof -
  have a: "proxy_methods echo_proxy ''echo'' = Some echo_delegate"
    by (simp add: proxy_methods_def echo_proxy_def)
  have b: "ob_getattr undocumented_client ''echo'' = Some (echo_method\<lparr>m_doc := None\<rparr>)"
    by (simp add: undocumented_client_def undocumented_attrs_def)
  have c: "''echo'' \<in> set (ob_dir Echo_Iface)" by (simp add: Echo_Iface_def)
  have d: "m_doc (echo_method\<lparr>m_doc := None\<rparr>) = None" by simp
  have e: "m_name echo_method = Some ''echo'' \<and> m_doc echo_method = Some '' Parameters: - message ''"
    by (simp add: echo_method_def)
  have f: "d_doc echo_delegate = ''proxy for '' @ ''echo'' @ '' Parameters: - message ''"
    by (simp add: echo_delegate_def)
  from make_proxy_requires_docstrings
         [of Echo_modules undocumented_client echo_proxy "''echo''" echo_delegate Echo_Iface
             "''echo''" "echo_method\<lparr>m_doc := None\<rparr>"]
    get_interface_undocumented_client b c d magic_examples(3)
  have g: "\<exists>e. make_proxy Echo_modules undocumented_client = Inl e" by blast
  from make_proxy_requires_docstrings
         [of Echo_modules echo_client echo_proxy "''echo''" echo_delegate]
    make_proxy_echo_client a
  have "\<exists>meth name doc. ob_getattr echo_client ''echo'' = Some meth \<and> m_name meth = Some name \<and>
         m_doc meth = Some doc \<and> d_doc echo_delegate = ''proxy for '' @ name @ doc" by blast
  with make_proxy_echo_client a e f g show ?thesis by blast
qed

section \<open>The magic-name pattern\<close>

text \<open>The matcher agrees with the pattern read as a set of strings.\<close>

lemma split_middle:
  assumes "5 \<le> length t" and "take 2 t = a" and "drop (length t - 2) t = b"
  shows "t = a @ take (length t - 4) (drop 2 t) @ b"
proof -
  have "t = take 2 t @ drop 2 t" by simp
  also have "drop 2 t = take (length t - 4) (drop 2 t) @ drop (length t - 4) (drop 2 t)"
    by (rule append_take_drop_id [symmetric])
  also have "drop (length t - 4) (drop 2 t) = drop (length t - 2) t"
  proof -
    have "length t - 4 + 2 = length t - 2" using assms(1) by arith
    then show ?thesis by (simp add: add.commute)
  qed
  finally show ?thesis using assms(2,3) by simp
qed

lemma MAGIC_METHOD_RE_match_iff:
  "MAGIC_METHOD_RE_match x \<longleftrightarrow>
     (\<exists>m. m \<noteq> [] \<and> CHR 0x0A \<notin> set m \<and>
          (x = ''__'' @ m @ ''__'' \<or> x = ''__'' @ m @ ''__'' @ [CHR 0x0A]))"
proof
  assume a: "MAGIC_METHOD_RE_match x"
  define t where "t = (if x \<noteq> [] \<and> last x = CHR 0x0A then butlast x else x)"
  from a have t: "5 \<le> length t" "take 2 t = ''__''" "drop (length t - 2) t = ''__''"
    "CHR 0x0A \<notin> set (take (length t - 4) (drop 2 t))"
    by (simp_all add: MAGIC_METHOD_RE_match_def t_def Let_def)
  let ?m = "take (length t - 4) (drop 2 t)"
  from split_middle [OF t(1,2,3)] have eq: "t = ''__'' @ ?m @ ''__''" .
  have ne: "?m \<noteq> []" using t(1) by auto
  have "x = t \<or> x = t @ [CHR 0x0A]"
  proof (cases "x \<noteq> [] \<and> last x = CHR 0x0A")
    case True
    then have "butlast x @ [CHR 0x0A] = x" using append_butlast_last_id [of x] by simp
    with True show ?thesis by (simp add: t_def)
  next
    case False
    then show ?thesis by (auto simp: t_def)
  qed
  with eq ne t(4) show "\<exists>m. m \<noteq> [] \<and> CHR 0x0A \<notin> set m \<and>
          (x = ''__'' @ m @ ''__'' \<or> x = ''__'' @ m @ ''__'' @ [CHR 0x0A])"
    by (metis append.assoc)
next
  assume "\<exists>m. m \<noteq> [] \<and> CHR 0x0A \<notin> set m \<and>
          (x = ''__'' @ m @ ''__'' \<or> x = ''__'' @ m @ ''__'' @ [CHR 0x0A])"
  then obtain m where m: "m \<noteq> []" "CHR 0x0A \<notin> set m"
    and x: "x = ''__'' @ m @ ''__'' \<or> x = ''__'' @ m @ ''__'' @ [CHR 0x0A]" by blast
  have len: "1 \<le> length m" using m(1) by (cases m) simp_all
  from x show "MAGIC_METHOD_RE_match x"
  proof
    assume "x = ''__'' @ m @ ''__''"
    then show ?thesis using m len
      by (simp add: MAGIC_METHOD_RE_match_def Let_def)
  next
    assume "x = ''__'' @ m @ ''__'' @ [CHR 0x0A]"
    then show ?thesis using m len
      by (simp add: MAGIC_METHOD_RE_match_def Let_def butlast_append)
  qed
qed

section \<open>Properties of the delegate\<close>

lemma invoke_result:
  "invoke meth varargs kwargs w =
     (fst (m_call meth varargs kwargs (backend w)),
      w\<lparr>events := events w @ [Invoked (m_name meth) varargs kwargs],
        backend := snd (m_call meth varargs kwargs (backend w))\<rparr>)"
  by (simp add: invoke_def split: prod.splits)

lemma wrapper_keyword_client:
  "''client'' \<in> set (map fst kwargs) \<Longrightarrow>
   wrapper bi g meth spec varargs kwargs w = (Inl TypeError, w)"
  by (simp add: wrapper_def)

lemma wrapper_untraced:
  "\<not> tracing g \<Longrightarrow> ''client'' \<notin> set (map fst kwargs) \<Longrightarrow>
   wrapper bi g meth spec varargs kwargs w = invoke meth varargs kwargs w"
  by (auto simp: wrapper_def trace_call_def split: prod.splits sum.splits)

lemma kwargs_gen_cases:
  "kwargs_gen bi kwargs = (if kwargs = [] then Inr [] else Inl TypeError)"
  by (cases kwargs) (auto simp: kwargs_gen_def str_join_def split: prod.splits)

lemma call_text_keywords: "kwargs \<noteq> [] \<Longrightarrow> call_text bi meth spec varargs kwargs = Inl TypeError"
  by (simp add: call_text_def kwargs_gen_cases)

lemma call_text_Inr_no_keywords:
  "call_text bi meth spec varargs kwargs = Inr line \<Longrightarrow> kwargs = []"
  by (cases "kwargs = []") (simp_all add: call_text_keywords)

lemma wrapper_traced_keywords_raise:
  "tracing g \<Longrightarrow> kwargs \<noteq> [] \<Longrightarrow> wrapper bi g meth spec varargs kwargs w = (Inl TypeError, w)"
  by (simp add: wrapper_def trace_call_def call_text_keywords)

lemma wrapper_traced:
  assumes "tracing g" and "call_text bi meth spec varargs kwargs = Inr line"
  shows "wrapper bi g meth spec varargs kwargs w =
     (let w1 = w\<lparr>events := events w @ (if softspace w then [Wrote '' ''] else []) @ [Wrote line] @
                     (if return_values g then [] else [Wrote ''\<newline>'']),
                  softspace := (return_values g \<and>
                     (line = [] \<or> \<not> isspace (last line) \<or> last line = CHR 0x20))\<rparr>
      in case invoke meth varargs kwargs w1 of
           (Inl e, w2) \<Rightarrow> (Inl e, w2)
         | (Inr result, w2) \<Rightarrow>
             if return_values g then
               (case result_text bi result of
                  Inl e \<Rightarrow> (Inl e, w2)
                | Inr s \<Rightarrow> (Inr result, print_newline (print_item s w2)))
             else (Inr result, w2))"
  using assms call_text_Inr_no_keywords [OF assms(2)]
  by (auto simp: wrapper_def trace_call_def print_item_def print_newline_def Let_def
      split: prod.splits sum.splits)

text \<open>
  When the trace line of a call is rendered, it is written before the backend method is
  invoked, and a failure of that invocation leaves it written, ends the call and is what the
  caller gets.
\<close>

lemma wrapper_traced_backend_raises:
  assumes "tracing g" and "call_text bi meth spec varargs kwargs = Inr line"
    and "fst (m_call meth varargs kwargs (backend w)) = Inl e"
  shows "wrapper bi g meth spec varargs kwargs w =
     (Inl e,
      w\<lparr>events := events w @ (if softspace w then [Wrote '' ''] else []) @ [Wrote line] @
                    (if return_values g then [] else [Wrote ''\<newline>'']) @
                    [Invoked (m_name meth) varargs kwargs],
        softspace := (return_values g \<and>
                      (line = [] \<or> \<not> isspace (last line) \<or> last line = CHR 0x20)),
        backend := snd (m_call meth varargs kwargs (backend w))\<rparr>)"
  unfolding wrapper_traced [OF assms(1,2)]
  using assms(3) by (simp add: invoke_result Let_def)

lemma call_text_echo_hi:
  "call_text str_builtins echo_method echo_args_thrift_spec [''hi''] [] = Inr ''echo(message='hi')''"
  by (simp add: call_text_def kwargs_gen_def str_join_def echo_method_def varargs_gen_def
      varargs_item_def echo_args_thrift_spec_def str_builtins_def str_repr_def repr_char_def
      Let_def)

lemma call_text_failing_hi:
  "call_text str_builtins failing_method echo_args_thrift_spec [''hi''] [] = Inr ''echo(message='hi')''"
  by (simp add: call_text_def kwargs_gen_def str_join_def failing_method_def varargs_gen_def
      varargs_item_def echo_args_thrift_spec_def str_builtins_def str_repr_def repr_char_def
      Let_def)

lemma wrapper_failing_hi:
  "wrapper str_builtins trace_on failing_method echo_args_thrift_spec [''hi''] [] world0 =
     (Inl (Thrown ''TTransportException''),
      \<lparr>events = [Wrote ''echo(message='hi')'', Wrote ''\<newline>'', Invoked (Some ''echo'') [''hi''] []],
       softspace = False, backend = 0\<rparr>)"
proof -
  have t: "tracing trace_on" by (simp add: trace_on_def)
  show ?thesis
    unfolding wrapper_traced [OF t call_text_failing_hi]
    by (simp add: trace_on_def invoke_def world0_def failing_method_def)
qed

lemma wrapper_gapped_schema:
  "wrapper str_builtins trace_on echo_method gapped_args_thrift_spec [''x'', ''y''] [] world0 =
     (Inl TypeError, world0)"
  by (simp add: wrapper_def trace_call_def trace_on_def call_text_def kwargs_gen_def str_join_def
      echo_method_def varargs_gen_def varargs_item_def gapped_args_thrift_spec_def
      str_builtins_def str_repr_def repr_char_def Let_def upt_rec)

text \<open>
  C6, at the call of the example made on a backend that fails: \<^verbatim>\<open>echo('hi')\<close> with tracing
  enabled writes the line \<^verbatim>\<open>echo(message='hi')\<close>, then invokes the backend method, whose
  failure is the caller's; the same call made with the keyword argument \<^verbatim>\<open>message='hi'\<close>
  raises \<^verbatim>\<open>TypeError\<close> with no line written and no invocation.
\<close>

theorem traced_keyword_call_emits_no_precall_line:
  "wrapper str_builtins trace_on failing_method echo_args_thrift_spec [''hi''] [] world0 =
     (Inl (Thrown ''TTransportException''),
      \<lparr>events = [Wrote ''echo(message='hi')'', Wrote ''\<newline>'', Invoked (Some ''echo'') [''hi''] []],
       softspace = False, backend = 0\<rparr>) \<and>
   wrapper str_builtins trace_on failing_method echo_args_thrift_spec [] [(''message'', ''hi'')]
     world0 = (Inl TypeError, world0) \<and>
   events world0 = []"
proof -
  have t: "tracing trace_on" by (simp add: trace_on_def)
  have "wrapper str_builtins trace_on failing_method echo_args_thrift_spec [] [(''message'', ''hi'')]
     world0 = (Inl TypeError, world0)"
    by (simp add: wrapper_traced_keywords_raise t)
  with wrapper_failing_hi show ?thesis by (simp add: world0_def)
qed

section \<open>Calls with tracing disabled\<close>

lemma written_snoc_Invoked: "written (es @ [Invoked n a k]) = written es"
  by (induction es rule: written.induct) simp_all

lemma proxy_call_untraced_silent:
  assumes "\<not> tracing g" and "proxy_call bi g p c w = (r, w')"
  shows "filter is_Wrote (events w') = filter is_Wrote (events w) \<and>
         written (events w') = written (events w) \<and> softspace w' = softspace w"
proof (cases "proxy_methods p (c_name c)")
  case None
  with assms show ?thesis by (simp add: proxy_call_def)
next
  case (Some d)
  show ?thesis
  proof (cases "''client'' \<in> set (map fst (c_kwargs c))")
    case True
    with assms Some show ?thesis
      by (simp add: proxy_call_def call_delegate_def wrapper_keyword_client)
  next
    case False
    with assms Some show ?thesis
      by (auto simp: proxy_call_def call_delegate_def wrapper_untraced invoke_result
          written_snoc_Invoked)
  qed
qed

lemma proxy_call_untraced_forwards:
  assumes "\<not> tracing g" and "''client'' \<notin> set (map fst (c_kwargs c))"
    and "proxy_call bi g p c w = (r, w')"
  shows "backend_call p c (backend w) = (r, backend w')"
proof (cases "proxy_methods p (c_name c)")
  case None
  with assms show ?thesis by (simp add: proxy_call_def backend_call_def)
next
  case (Some d)
  with assms show ?thesis
    by (auto simp: proxy_call_def backend_call_def call_delegate_def wrapper_untraced
        invoke_result)
qed

text \<open>
  With tracing disabled a run of any number of calls through the proxy writes nothing,
  whatever \<^verbatim>\<open>return_values\<close> is.
\<close>

lemma untraced_calls_silent:
  assumes "\<not> tracing g" and "proxy_calls bi g p cs w = (rs, w')"
  shows "filter is_Wrote (events w') = filter is_Wrote (events w) \<and>
         written (events w') = written (events w) \<and> softspace w' = softspace w"
  using assms(2)
proof (induction cs arbitrary: w rs w')
  case Nil
  then show ?case by simp
next
  case (Cons c cs)
  obtain r w1 where c: "proxy_call bi g p c w = (r, w1)" by (cases "proxy_call bi g p c w")
  obtain rs' w2 where cs: "proxy_calls bi g p cs w1 = (rs', w2)"
    by (cases "proxy_calls bi g p cs w1")
  from Cons.prems c cs have eq: "w' = w2" by simp
  from proxy_call_untraced_silent [OF assms(1) c] Cons.IH [OF cs] eq
  show ?case by simp
qed

text \<open>
  With tracing disabled, calls that pass no keyword argument named \<^verbatim>\<open>client\<close> give the
  caller exactly what the bound backend methods give for the same arguments.
\<close>

lemma untraced_calls_forward:
  assumes "\<not> tracing g" and "\<forall>c\<in>set cs. ''client'' \<notin> set (map fst (c_kwargs c))"
    and "proxy_calls bi g p cs w = (rs, w')"
  shows "backend_calls p cs (backend w) = (rs, backend w')"
  using assms(2,3)
proof (induction cs arbitrary: w rs w')
  case Nil
  then show ?case by simp
next
  case (Cons c cs)
  obtain r w1 where c: "proxy_call bi g p c w = (r, w1)" by (cases "proxy_call bi g p c w")
  obtain rs' w2 where cs: "proxy_calls bi g p cs w1 = (rs', w2)"
    by (cases "proxy_calls bi g p cs w1")
  from Cons.prems c cs have eq: "rs = r # rs'" "w' = w2" by simp_all
  from Cons.prems(1) have k: "''client'' \<notin> set (map fst (c_kwargs c))"
    and ks: "\<forall>c\<in>set cs. ''client'' \<notin> set (map fst (c_kwargs c))" by simp_all
  from proxy_call_untraced_forwards [OF assms(1) k c] Cons.IH [OF ks cs] eq
  show ?case by simp
qed

lemma untraced_echo_three_times:
  "proxy_calls str_builtins trace_off echo_proxy [echo_hi, echo_hi, echo_hi] world0 =
     ([Inr ''hi'', Inr ''hi'', Inr ''hi''],
      \<lparr>events = [Invoked (Some ''echo'') [''hi''] [], Invoked (Some ''echo'') [''hi''] [],
                 Invoked (Some ''echo'') [''hi''] []],
       softspace = False, backend = 3\<rparr>)"
proof -
  have t: "\<not> tracing trace_off" by (simp add: trace_off_def)
  show ?thesis
    by (simp add: proxy_call_def proxy_methods_def echo_proxy_def call_delegate_def
        wrapper_untraced [OF t] invoke_def echo_delegate_def echo_method_def echo_call_def
        echo_hi_def world0_def numeral_3_eq_3)
qed

text \<open>
  C7, at a call with the keyword argument \<^verbatim>\<open>client\<close>, tracing disabled: the call
  \<^verbatim>\<open>register(client='x')\<close> made on the backend method returns \<^verbatim>\<open>'ok'\<close>; made through the
  proxy it raises \<^verbatim>\<open>TypeError\<close> when the arguments are bound, nothing is written and the
  backend method is not invoked. The same call with the argument in position is forwarded
  and returns \<^verbatim>\<open>'ok'\<close>.
\<close>

theorem untraced_keyword_client_call_not_forwarded:
  "proxy_calls str_builtins trace_off register_proxy [register_keyword] world0 =
     ([Inl TypeError], world0) \<and>
   backend_calls register_proxy [register_keyword] (backend world0) = ([Inr ''ok''], 1) \<and>
   proxy_calls str_builtins trace_off register_proxy [register_positional] world0 =
     ([Inr ''ok''],
      \<lparr>events = [Invoked (Some ''register'') [''x''] []], softspace = False, backend = 1\<rparr>)"
proof -
  have t: "\<not> tracing trace_off" by (simp add: trace_off_def)
  have a: "proxy_calls str_builtins trace_off register_proxy [register_keyword] world0 =
     ([Inl TypeError], world0)"
    by (simp add: proxy_call_def proxy_methods_def register_proxy_def call_delegate_def
        register_keyword_def wrapper_keyword_client)
  have b: "backend_calls register_proxy [register_keyword] (backend world0) = ([Inr ''ok''], 1)"
    by (simp add: backend_call_def proxy_methods_def register_proxy_def register_keyword_def
        register_delegate_def register_method_def register_call_def world0_def)
  have c: "proxy_calls str_builtins trace_off register_proxy [register_positional] world0 =
     ([Inr ''ok''],
      \<lparr>events = [Invoked (Some ''register'') [''x''] []], softspace = False, backend = 1\<rparr>)"
    by (simp add: proxy_call_def proxy_methods_def register_proxy_def call_delegate_def
        register_positional_def wrapper_untraced [OF t] invoke_def register_delegate_def
        register_method_def register_call_def world0_def)
  from a b c show ?thesis by simp
qed

section \<open>Traced calls\<close>

lemma collect_map:
  "(\<And>x. x \<in> set xs \<Longrightarrow> f x = Inr (h x)) \<Longrightarrow> collect (map f xs) = Inr (map h xs)"
  by (induction xs) simp_all

lemma str_items_SStr: "str_items (map (SStr \<circ> f) xs) = Inr (map f xs)"
  by (induction xs) simp_all

lemma call_text_positional:
  assumes "m_name meth = Some name"
    and "\<And>i. i < length varargs \<Longrightarrow>
           \<exists>entry. py_getitem spec (1 + i) = Inr entry \<and> py_getitem entry 2 = Inr (SStr (labels ! i))"
  shows "call_text bi meth spec varargs [] =
     Inr (name @ ''('' @
          join_strs '', '' (map (\<lambda>i. labels ! i @ ''='' @ py_repr bi (varargs ! i)) [0..<length varargs]) @
          '')'')"
proof -
  have item: "varargs_item bi spec varargs i = Inr (labels ! i @ ''='' @ py_repr bi (varargs ! i))"
    if "i \<in> set [0..<length varargs]" for i
  proof -
    from that have "i < length varargs" by simp
    from assms(2) [OF this] show ?thesis
      by (auto simp: varargs_item_def str_join_def)
  qed
  have "collect (varargs_gen bi spec varargs) =
        Inr (map (\<lambda>i. labels ! i @ ''='' @ py_repr bi (varargs ! i)) [0..<length varargs])"
    unfolding varargs_gen_def by (rule collect_map) (rule item)
  then show ?thesis
    by (simp add: call_text_def kwargs_gen_cases assms(1) str_join_def str_items_SStr)
qed

text \<open>
  A call with positional arguments only, tracing enabled and return values not shown: one
  line \<^verbatim>\<open>name(label0=repr0, label1=repr1, ...)\<close> is written, with the label of argument
  \<open>i\<close> read at index 2 of entry \<open>i + 1\<close> of the schema, then the backend method is invoked
  with the same arguments and its outcome is the caller's.
\<close>

lemma wrapper_traces_positional_call:
  assumes "tracing g" and "\<not> return_values g" and "m_name meth = Some name"
    and "\<And>i. i < length varargs \<Longrightarrow>
           \<exists>entry. py_getitem spec (1 + i) = Inr entry \<and> py_getitem entry 2 = Inr (SStr (labels ! i))"
  shows "wrapper bi g meth spec varargs [] w =
     (fst (m_call meth varargs [] (backend w)),
      w\<lparr>events := events w @ (if softspace w then [Wrote '' ''] else []) @
           [Wrote (name @ ''('' @
              join_strs '', '' (map (\<lambda>i. labels ! i @ ''='' @ py_repr bi (varargs ! i)) [0..<length varargs]) @
              '')''),
            Wrote ''\<newline>'', Invoked (Some name) varargs []],
        softspace := False,
        backend := snd (m_call meth varargs [] (backend w))\<rparr>)"
proof -
  note line = call_text_positional [where bi = bi, OF assms(3,4)]
  show ?thesis
    using assms(2,3) wrapper_traced [where w = w, OF assms(1) line]
    by (auto simp: invoke_result Let_def split: sum.splits)
qed

lemma invocations_append: "invocations (xs @ ys) = invocations xs @ invocations ys"
  by (induction xs rule: invocations.induct) simp_all

lemma trace_call_keeps:
  "trace_call bi g meth spec varargs kwargs w = Inr w1 \<Longrightarrow>
   backend w1 = backend w \<and> invocations (events w1) = invocations (events w)"
  by (auto simp: trace_call_def print_item_def print_newline_def Let_def invocations_append
      split: if_splits sum.splits)

text \<open>
  Once the trace before the call has been written (or tracing is off), and no keyword
  argument is named \<^verbatim>\<open>client\<close>, the backend method is invoked once with the arguments
  received and its result or failure is the caller's. Showing return values asks for a
  result that \<^verbatim>\<open>%r\<close> can format, which excludes tuples of a length other than one.
\<close>

lemma wrapper_forwards:
  assumes "trace_call bi g meth spec varargs kwargs w = Inr w1"
    and "\<not> (tracing g \<and> return_values g) \<or> (\<forall>v. tuple_items bi v = None)"
    and "''client'' \<notin> set (map fst kwargs)"
  shows "fst (wrapper bi g meth spec varargs kwargs w) = fst (m_call meth varargs kwargs (backend w)) \<and>
         backend (snd (wrapper bi g meth spec varargs kwargs w)) =
           snd (m_call meth varargs kwargs (backend w)) \<and>
         invocations (events (snd (wrapper bi g meth spec varargs kwargs w))) =
           invocations (events w) @ [(m_name meth, varargs, kwargs)]"
  using assms trace_call_keeps [OF assms(1)]
  by (auto simp: wrapper_def invoke_result result_text_def print_item_def print_newline_def
      invocations_append split: sum.splits option.splits)

text \<open>
  C1, at a call with a keyword argument: with tracing enabled the delegate raises
  \<^verbatim>\<open>TypeError\<close> while it renders the keyword arguments, the backend method is not invoked
  and the state is untouched; the same call with tracing disabled invokes the backend method
  with the keyword argument and returns its result.
\<close>

theorem traced_keyword_call_not_forwarded:
  "wrapper str_builtins \<lparr>tracing = True, return_values = False\<rparr> echo_method
     echo_args_thrift_spec [] [(''message'', ''hi'')] world0 = (Inl TypeError, world0) \<and>
   invocations (events world0) = [] \<and>
   wrapper str_builtins \<lparr>tracing = False, return_values = False\<rparr> echo_method
     echo_args_thrift_spec [] [(''message'', ''hi'')] world0 =
     (Inr ''hi'',
      \<lparr>events = [Invoked (Some ''echo'') [] [(''message'', ''hi'')]], softspace = False,
       backend = 1\<rparr>)"
  by (simp add: wrapper_traced_keywords_raise wrapper_untraced invoke_def world0_def
      echo_method_def echo_call_def)

text \<open>
  C3, at the call of the example: \<^verbatim>\<open>echo('hi')\<close> with tracing enabled and return values not
  shown writes the one line \<^verbatim>\<open>echo(message='hi')\<close>; the same call made with the keyword
  argument \<^verbatim>\<open>message='hi'\<close> raises \<^verbatim>\<open>TypeError\<close> and writes no line.
\<close>

theorem traced_keyword_call_writes_no_line:
  "written (events (snd (wrapper str_builtins trace_on echo_method echo_args_thrift_spec
      [''hi''] [] world0))) = ''echo(message='hi')'' @ ''\<newline>'' \<and>
   fst (wrapper str_builtins trace_on echo_method echo_args_thrift_spec
      [] [(''message'', ''hi'')] world0) = Inl TypeError \<and>
   written (events (snd (wrapper str_builtins trace_on echo_method echo_args_thrift_spec
      [] [(''message'', ''hi'')] world0))) = []"
proof -
  have t: "tracing trace_on" by (simp add: trace_on_def)
  have a: "written (events (snd (wrapper str_builtins trace_on echo_method echo_args_thrift_spec
      [''hi''] [] world0))) = ''echo(message='hi')'' @ ''\<newline>''"
    unfolding wrapper_traced [OF t call_text_echo_hi]
    by (simp add: trace_on_def invoke_def world0_def echo_method_def echo_call_def)
  have b: "wrapper str_builtins trace_on echo_method echo_args_thrift_spec
      [] [(''message'', ''hi'')] world0 = (Inl TypeError, world0)"
    by (simp add: wrapper_traced_keywords_raise t)
  from a b show ?thesis by (simp add: world0_def)
qed

section \<open>Properties of make_client\<close>

lemma make_client_try_no_close:
  "make_client_try lib body log = (r, log') \<Longrightarrow> close_calls log' = close_calls log"
  by (auto simp: make_client_try_def close_calls_def split: option.splits sum.splits)

text \<open>
  C5: once the transport object exists, the scope calls its \<^verbatim>\<open>close\<close> exactly once, as the
  last thing it does, however it is left: the body completes, building the protocol or the
  client raises, \<^verbatim>\<open>open\<close> raises, or the body raises.
\<close>

theorem make_client_closes_once:
  assumes "TSocket_raises lib = None" and "Transport_raises lib = None"
    and "make_client lib buffered body = (r, log)"
  shows "close_calls log = 1 \<and> last log = Transport_close"
proof -
  obtain r' log' where t: "make_client_try lib body [TSocket_init, Transport_init buffered] = (r', log')"
    by (cases "make_client_try lib body [TSocket_init, Transport_init buffered]")
  from make_client_try_no_close [OF t] have "close_calls log' = 0"
    by (simp add: close_calls_def)
  moreover from assms t have "log = log' @ [Transport_close]"
    by (auto simp: make_client_def split: option.splits)
  ultimately show ?thesis by (simp add: close_calls_def)
qed

theorem make_client_closes_once_witness:
  "TSocket_raises unreachable_lib = None \<and> Transport_raises unreachable_lib = None \<and>
   make_client unreachable_lib False (\<lambda>client. Inr client) =
     (Inl (Thrown ''TTransportException''),
      [TSocket_init, Transport_init False, Protocol_init, Client_init, Transport_open,
       Transport_close]) \<and>
   make_client reachable_lib False (\<lambda>client. Inl (Thrown ''KeyboardInterrupt'') :: exn + nat) =
     (Inl (Thrown ''KeyboardInterrupt''),
      [TSocket_init, Transport_init False, Protocol_init, Client_init, Transport_open, Body_run,
       Transport_close]) \<and>
   close_calls [TSocket_init, Transport_init False, Protocol_init, Client_init, Transport_open,
       Transport_close] = 1 \<and>
   close_calls [TSocket_init, Transport_init False, Protocol_init, Client_init, Transport_open,
       Body_run, Transport_close] = 1"
proof -
  have a: "TSocket_raises unreachable_lib = None" "Transport_raises unreachable_lib = None"
    "TSocket_raises reachable_lib = None" "Transport_raises reachable_lib = None"
    by (simp_all add: unreachable_lib_def reachable_lib_def)
  have b: "make_client unreachable_lib False (\<lambda>client. Inr client) =
     (Inl (Thrown ''TTransportException''),
      [TSocket_init, Transport_init False, Protocol_init, Client_init, Transport_open,
       Transport_close])"
    by (simp add: make_client_def make_client_try_def unreachable_lib_def)
  have c: "make_client reachable_lib False (\<lambda>client. Inl (Thrown ''KeyboardInterrupt'') :: exn + nat) =
     (Inl (Thrown ''KeyboardInterrupt''),
      [TSocket_init, Transport_init False, Protocol_init, Client_init, Transport_open, Body_run,
       Transport_close])"
    by (simp add: make_client_def make_client_try_def unreachable_lib_def reachable_lib_def)
  from make_client_closes_once [OF a(1,2) b] make_client_closes_once [OF a(3,4) c] a b c
  show ?thesis by simp
qed

section \<open>Properties of the start-up in main\<close>

lemma endswith_iff: "endswith s suffix \<longleftrightarrow> (\<exists>m. s = m @ suffix)"
proof
  assume "endswith s suffix"
  then have "s = take (length s - length suffix) s @ suffix"
    by (metis append_take_drop_id endswith_def)
  then show "\<exists>m. s = m @ suffix" ..
next
  assume "\<exists>m. s = m @ suffix"
  then show "endswith s suffix" by (auto simp: endswith_def)
qed

text \<open>
  C8: a service type name \<^verbatim>\<open>m + '.Client'\<close> gives the module name \<^verbatim>\<open>m\<close>, seven characters
  shorter; a name that does not end in \<^verbatim>\<open>.Client\<close> is the module name as it is; and the two
  types main goes on with are the attributes \<^verbatim>\<open>Client\<close> and \<^verbatim>\<open>Processor\<close> of the module
  of that name.
\<close>

theorem main_strips_Client_suffix:
  "base_module_name_of (m @ ''.Client'') = m \<and>
   length (m @ ''.Client'') - length (base_module_name_of (m @ ''.Client'')) = 7 \<and>
   (\<not> endswith s ''.Client'' \<longrightarrow> base_module_name_of s = s) \<and>
   (main_load_types sys_modules s = Inr (c, p) \<longleftrightarrow>
      (\<exists>module. base_module_name_of s \<noteq> [] \<and> sys_modules (base_module_name_of s) = Some module \<and>
         module ''Client'' = Some c \<and> module ''Processor'' = Some p))"
proof -
  have a: "base_module_name_of (m @ ''.Client'') = m"
    by (simp add: base_module_name_of_def endswith_def)
  have b: "\<not> endswith s ''.Client'' \<longrightarrow> base_module_name_of s = s"
    by (simp add: base_module_name_of_def)
  have c: "main_load_types sys_modules s = Inr (c, p) \<longleftrightarrow>
      (\<exists>module. base_module_name_of s \<noteq> [] \<and> sys_modules (base_module_name_of s) = Some module \<and>
         module ''Client'' = Some c \<and> module ''Processor'' = Some p)"
    by (auto simp: main_load_types_def py_import_def Let_def split: option.splits sum.splits if_splits)
  from a b c show ?thesis by simp
qed

theorem main_strips_Client_suffix_witness:
  "\<not> endswith ''Echo'' ''.Client'' \<and> base_module_name_of ''Echo'' = ''Echo'' \<and>
   base_module_name_of ''Echo.Client'' = ''Echo'' \<and>
   main_load_types Echo_types ''Echo.Client'' = Inr (''Echo.Client'', ''Echo.Processor'') \<and>
   main_load_types Echo_types ''Echo'' = Inr (''Echo.Client'', ''Echo.Processor'')"
proof -
  have a: "\<not> endswith ''Echo'' ''.Client''" by (simp add: endswith_def)
  have b: "base_module_name_of ''Echo.Client'' = ''Echo''"
    using main_strips_Client_suffix [of "''Echo''" "''Echo''" Echo_types "''Echo.Client''" "''Echo.Processor''"]
    by simp
  have c: "base_module_name_of ''Echo'' = ''Echo''"
    using main_strips_Client_suffix [of "''Echo''" "''Echo''" Echo_types "''Echo.Client''" "''Echo.Processor''"] a
    by blast
  have d: "main_load_types Echo_types ''Echo.Client'' = Inr (''Echo.Client'', ''Echo.Processor'')"
    using main_strips_Client_suffix [of "''Echo''" "''Echo.Client''" Echo_types "''Echo.Client''" "''Echo.Processor''"]
    by (simp add: b Echo_types_def)
  have e: "main_load_types Echo_types ''Echo'' = Inr (''Echo.Client'', ''Echo.Processor'')"
    using main_strips_Client_suffix [of "''Echo''" "''Echo''" Echo_types "''Echo.Client''" "''Echo.Processor''"]
    by (simp add: c Echo_types_def)
  from a b c d e show ?thesis by simp
qed

section \<open>When make_proxy returns\<close>

text \<open>
  The proxy is built as soon as the interface resolves, the interface and the client have a
  \<^verbatim>\<open>__module__\<close>, and every name that is not magic has a schema and a documented method.
\<close>

lemma make_proxy_succeeds:
  assumes "get_interface client = Inr iface" and "ob_module iface = Some bm"
    and "ob_module client = Some mn"
    and "\<forall>x\<in>set (ob_dir iface). \<not> MAGIC_METHOD_RE_match x \<longrightarrow> delegate_for sm bm client x \<noteq> None"
  shows "\<exists>p. make_proxy sm client = Inr p"
  using assms(2,3) build_dict_success [OF assms(4), of Map.empty]
  by (simp add: make_proxy_def make_proxy_type_resolved [OF assms(1)])

text \<open>
  A client class without a base named \<^verbatim>\<open>Iface\<close>: the \<^verbatim>\<open>StopIteration\<close> of \<^verbatim>\<open>next\<close> ends the
  generator \<^verbatim>\<open>get_service_methods\<close>, and the proxy has no methods.
\<close>

lemma make_proxy_no_Iface_base:
  assumes "get_interface client = Inl StopIteration" and "ob_module client = Some mn"
  shows "make_proxy sm client =
     Inr (Instance \<lparr>ty_name = mn @ ''.Proxy'', ty_bases = [''object''], ty_dict = Map.empty\<rparr>)"
  using assms
  by (simp add: make_proxy_def make_proxy_type_def make_proxy_methods_def
      get_service_methods_def gen_raise_def)

end
